theory Spec2Isabelle
  imports Complex_Main
begin

section \<open>The ledger of \<^verbatim>\<open>database/schema.sql\<close>\<close>

text \<open>
  The stored procedure \<^verbatim>\<open>transfer_money\<close> reads and writes two tables,
  \<^verbatim>\<open>accounts\<close> and \<^verbatim>\<open>transactions\<close>. The model keeps the columns of both.

  \<^item> A \<^verbatim>\<open>UUID\<close> is an opaque key; only equality is used, so it is a natural number.
  \<^item> A value stored as \<^verbatim>\<open>DECIMAL(15, 2)\<close> (a column, a declared variable) is a count of
    hundredths: \<^verbatim>\<open>150.00\<close> is \<open>15000\<close>. The type holds thirteen digits before the
    point, that is counts below \<open>10 ^ 15\<close> in absolute value.
  \<^item> A \<^verbatim>\<open>numeric\<close> without scale is a rational number of hundredths: \<^verbatim>\<open>50.005\<close> is
    \<open>10001 / 2\<close>. The parameter \<^verbatim>\<open>p_amount\<close> is one: \<^verbatim>\<open>CREATE FUNCTION\<close> keeps the
    type of a parameter and discards its \<^verbatim>\<open>(15, 2)\<close>, so the amount reaches the body
    as the caller wrote it. The special values \<^verbatim>\<open>NaN\<close> and \<^verbatim>\<open>Infinity\<close> are outside the
    model.
  \<^item> A \<^verbatim>\<open>TIMESTAMP\<close> is a number of seconds of local time, and \<^verbatim>\<open>DATE(t)\<close> is the
    day it falls in.
  \<^item> Columns that carry a \<^verbatim>\<open>DEFAULT\<close> (balance, status, limit) always hold a value;
    SQL \<^verbatim>\<open>NULL\<close> appears only where the procedure itself leaves a column empty.
  \<^item> \<^verbatim>\<open>account_id\<close> is the primary key of \<^verbatim>\<open>accounts\<close>, so the table is a map from
    the key to the rest of the row. \<^verbatim>\<open>transactions\<close> is the list of its rows in
    insertion order.
\<close>

type_synonym uuid = nat
type_synonym decimal = int
type_synonym numeric = rat
type_synonym timestamp = nat
type_synonym date = nat

datatype account_type = SAVINGS | CURRENT | BUSINESS
datatype account_status = ACTIVE | FROZEN | CLOSED
datatype transaction_type = TRANSFER | DEPOSIT | WITHDRAWAL | FEE
datatype transaction_status = PENDING | COMPLETED | FAILED | REVERSED

record account =
  user_id :: uuid
  account_number :: string
  balance :: decimal
  account_type :: account_type
  currency :: string
  status :: account_status
  daily_transfer_limit :: decimal
  created_at :: timestamp
  updated_at :: timestamp

text \<open>
  Two columns of \<^verbatim>\<open>transactions\<close> share their name with a column of \<^verbatim>\<open>accounts\<close>;
  they carry the suffix \<open>_tx\<close> here.
\<close>

record transaction_row =
  transaction_id :: uuid
  sender_account_id :: "uuid option"
  receiver_account_id :: "uuid option"
  amount :: decimal
  transaction_type :: transaction_type
  status_tx :: transaction_status
  description :: string
  reference_number :: string
  fee_amount :: decimal
  created_at_tx :: timestamp
  completed_at :: "timestamp option"
  failure_reason :: "string option"

record db =
  accounts :: "uuid \<rightharpoonup> account"
  transactions :: "transaction_row list"

definition DATE :: "timestamp \<Rightarrow> date" where
  "DATE t = t div 86400"

subsection \<open>Constraints and the errors they raise\<close>

text \<open>
  The constraints that a statement of the procedure can trip are the two \<^verbatim>\<open>CHECK\<close>s
  (\<^verbatim>\<open>balance >= 0\<close>, \<^verbatim>\<open>amount > 0\<close>), the primary key of \<^verbatim>\<open>transactions\<close> and the
  \<^verbatim>\<open>UNIQUE\<close> on \<^verbatim>\<open>reference_number\<close>. The foreign keys of the inserted row point at
  the two accounts the procedure has just found, the enumerated columns get literals
  of the allowed set, and the parameters are taken to be present (not \<^verbatim>\<open>NULL\<close>) and
  the reference number to fit the 50 characters of its column, so the remaining
  constraints cannot fail here. Besides the constraints, storing a number into a
  \<^verbatim>\<open>DECIMAL(15, 2)\<close> raises \<^verbatim>\<open>numeric_value_out_of_range\<close> when it does not fit.
\<close>

datatype sql_constraint =
  accounts_balance_check
  | transactions_amount_check
  | transactions_pkey
  | transactions_reference_number_key

datatype sql_error =
  check_violation sql_constraint
  | unique_violation sql_constraint
  | numeric_value_out_of_range

text \<open>
  The procedure returns one of two JSON objects. The \<^verbatim>\<open>error\<close> member is either one
  of the four literals of the source or \<^verbatim>\<open>SQLERRM\<close>, the server's message for the
  error that was caught. The message text belongs to the server, not to the source; it
  is kept as the error it describes, and it is none of the four literals (the server
  words a violated constraint by naming the relation and the constraint).
\<close>

datatype error_text = Literal string | SQLERRM sql_error

datatype json =
  Success_json uuid string
  | Failure_json error_text

fun success :: "json \<Rightarrow> bool" where
  "success (Success_json _ _) = True"
| "success (Failure_json _) = False"

subsection \<open>Storing a number as \<^verbatim>\<open>DECIMAL(15, 2)\<close>\<close>

text \<open>
  The server rounds a numeric to the scale of its target, ties away from zero, and
  then checks the digits: \<^verbatim>\<open>49949.995\<close> becomes \<^verbatim>\<open>49950.00\<close>, \<^verbatim>\<open>50050.005\<close> becomes
  \<^verbatim>\<open>50050.01\<close>, and a rounded result of \<^verbatim>\<open>10 ^ 13\<close> or more in absolute value, that
  is \<open>10 ^ 15\<close> hundredths, raises the error.
\<close>

definition round_numeric :: "numeric \<Rightarrow> int" where
  "round_numeric q = (if 0 \<le> q then \<lfloor>q + 1 / 2\<rfloor> else - \<lfloor>- q + 1 / 2\<rfloor>)"

definition numeric_15_2 :: "numeric \<Rightarrow> sql_error + decimal" where
  "numeric_15_2 q =
     (if \<bar>round_numeric q\<bar> < 10 ^ 15 then Inr (round_numeric q)
      else Inl numeric_value_out_of_range)"

subsection \<open>The statements of the procedure\<close>

text \<open>
  \<^verbatim>\<open>SELECT COALESCE(SUM(amount), 0) FROM transactions WHERE sender_account_id = p
  AND DATE(created_at) = CURRENT_DATE AND status = 'COMPLETED'\<close>
\<close>

definition daily_total :: "transaction_row list \<Rightarrow> uuid \<Rightarrow> timestamp \<Rightarrow> decimal" where
  "daily_total ts p now =
     sum_list (map amount
       (filter (\<lambda>t. sender_account_id t = Some p
                     \<and> DATE (created_at_tx t) = DATE now
                     \<and> status_tx t = COMPLETED) ts))"

text \<open>
  \<^verbatim>\<open>INSERT INTO transactions (...) VALUES (...)\<close> of a row whose values have already
  been brought to the types of the columns: the row's \<^verbatim>\<open>CHECK\<close> is evaluated first,
  then the unique indexes.
\<close>

definition insert_transaction ::
  "transaction_row list \<Rightarrow> transaction_row \<Rightarrow> sql_error + transaction_row list" where
  "insert_transaction ts t =
     (if amount t \<le> 0 then Inl (check_violation transactions_amount_check)
      else if transaction_id t \<in> set (map transaction_id ts)
        then Inl (unique_violation transactions_pkey)
      else if reference_number t \<in> set (map reference_number ts)
        then Inl (unique_violation transactions_reference_number_key)
      else Inr (ts @ [t]))"

text \<open>
  \<^verbatim>\<open>UPDATE accounts SET balance = balance + delta WHERE account_id = p\<close>. The sum is
  computed exactly and then stored into the \<^verbatim>\<open>DECIMAL(15, 2)\<close> column, which rounds
  it or raises; the \<^verbatim>\<open>BEFORE UPDATE\<close> trigger stamps \<^verbatim>\<open>updated_at\<close>; the
  \<^verbatim>\<open>CHECK (balance >= 0)\<close> is evaluated on the stored value.
\<close>

definition update_balance ::
  "timestamp \<Rightarrow> (uuid \<rightharpoonup> account) \<Rightarrow> uuid \<Rightarrow> numeric \<Rightarrow> sql_error + (uuid \<rightharpoonup> account)" where
  "update_balance now accs p delta =
     (case accs p of
        None \<Rightarrow> Inr accs
      | Some a \<Rightarrow>
          (case numeric_15_2 (of_int (balance a) + delta) of
             Inl e \<Rightarrow> Inl e
           | Inr b \<Rightarrow>
               if b < 0 then Inl (check_violation accounts_balance_check)
               else Inr (accs(p \<mapsto> a\<lparr>balance := b, updated_at := now\<rparr>))))"

text \<open>
  \<^verbatim>\<open>UPDATE transactions SET status = 'COMPLETED', completed_at = CURRENT_TIMESTAMP
  WHERE transaction_id = v\<close>
\<close>

definition complete_transaction ::
  "timestamp \<Rightarrow> transaction_row list \<Rightarrow> uuid \<Rightarrow> transaction_row list" where
  "complete_transaction now ts v =
     map (\<lambda>t. if transaction_id t = v
               then t\<lparr>status_tx := COMPLETED, completed_at := Some now\<rparr> else t) ts"

subsection \<open>\<^verbatim>\<open>transfer_money\<close>\<close>

text \<open>
  Besides its five parameters the procedure depends on the clock
  (\<^verbatim>\<open>CURRENT_TIMESTAMP\<close>, \<^verbatim>\<open>CURRENT_DATE\<close>) and on the value \<^verbatim>\<open>uuid_generate_v4()\<close>
  produces for the new row; both are arguments of the model. \<^verbatim>\<open>FOR UPDATE\<close> takes a
  row lock and has no effect on a single run. The comparisons work on exact numbers.
  The day's total is stored into the variable \<^verbatim>\<open>v_daily_total DECIMAL(15, 2)\<close> and the
  amount into the column \<^verbatim>\<open>amount DECIMAL(15, 2)\<close>; both go through \<open>numeric_15_2\<close>.

  \<open>transfer_block\<close> is the block between \<^verbatim>\<open>BEGIN\<close> and \<^verbatim>\<open>EXCEPTION\<close>: it either
  raises or returns a JSON object together with the tables as it leaves them.
\<close>

definition transfer_block ::
  "timestamp \<Rightarrow> uuid \<Rightarrow> db \<Rightarrow> uuid \<Rightarrow> uuid \<Rightarrow> numeric \<Rightarrow> string \<Rightarrow> string
     \<Rightarrow> sql_error + (db \<times> json)" where
  "transfer_block now v4 d p_sender_account_id p_receiver_account_id p_amount
       p_description p_reference_number =
     (case accounts d p_sender_account_id of
        None \<Rightarrow> Inr (d, Failure_json (Literal ''Sender account not found or inactive''))
      | Some s \<Rightarrow>
          if status s \<noteq> ACTIVE
            then Inr (d, Failure_json (Literal ''Sender account not found or inactive''))
          else if \<not> (case accounts d p_receiver_account_id of
                        None \<Rightarrow> False | Some r \<Rightarrow> status r = ACTIVE)
            then Inr (d, Failure_json (Literal ''Receiver account not found or inactive''))
          else if of_int (balance s) < p_amount
            then Inr (d, Failure_json (Literal ''Insufficient balance''))
          else
            (case numeric_15_2
                    (of_int (daily_total (transactions d) p_sender_account_id now)) of
               Inl e \<Rightarrow> Inl e
             | Inr v_daily_total \<Rightarrow>
                 if of_int v_daily_total + p_amount > of_int (daily_transfer_limit s)
                   then Inr (d, Failure_json (Literal ''Daily transfer limit exceeded''))
                 else
                   (case numeric_15_2 p_amount of
                      Inl e \<Rightarrow> Inl e
                    | Inr stored_amount \<Rightarrow>
                        (case insert_transaction (transactions d)
                                \<lparr>transaction_id = v4,
                                 sender_account_id = Some p_sender_account_id,
                                 receiver_account_id = Some p_receiver_account_id,
                                 amount = stored_amount,
                                 transaction_type = TRANSFER,
                                 status_tx = PENDING,
                                 description = p_description,
                                 reference_number = p_reference_number,
                                 fee_amount = 0,
                                 created_at_tx = now,
                                 completed_at = None,
                                 failure_reason = None\<rparr> of
                           Inl e \<Rightarrow> Inl e
                         | Inr ts1 \<Rightarrow>
                             (case update_balance now (accounts d) p_sender_account_id
                                     (- p_amount) of
                                Inl e \<Rightarrow> Inl e
                              | Inr accs1 \<Rightarrow>
                                  (case update_balance now accs1 p_receiver_account_id
                                          p_amount of
                                     Inl e \<Rightarrow> Inl e
                                   | Inr accs2 \<Rightarrow>
                                       Inr (\<lparr>accounts = accs2,
                                             transactions =
                                               complete_transaction now ts1 v4\<rparr>,
                                            Success_json v4
                                              ''Transfer completed successfully'')))))))"

text \<open>
  \<^verbatim>\<open>EXCEPTION WHEN OTHERS THEN RETURN json_build_object('success', false, 'error',
  SQLERRM)\<close>: entering the handler undoes every write of the block, so the tables are
  the ones the call started with.
\<close>

definition when_others :: "db \<Rightarrow> sql_error \<Rightarrow> db \<times> json" where
  "when_others d e = (d, Failure_json (SQLERRM e))"

definition transfer_money ::
  "timestamp \<Rightarrow> uuid \<Rightarrow> db \<Rightarrow> uuid \<Rightarrow> uuid \<Rightarrow> numeric \<Rightarrow> string \<Rightarrow> string \<Rightarrow> db \<times> json" where
  "transfer_money now v4 d p_sender_account_id p_receiver_account_id p_amount
       p_description p_reference_number =
     (case transfer_block now v4 d p_sender_account_id p_receiver_account_id p_amount
             p_description p_reference_number of
        Inl e \<Rightarrow> when_others d e
      | Inr r \<Rightarrow> r)"

subsection \<open>Balances\<close>

text \<open>The balance stored under an account id; an id with no row counts as zero.\<close>

definition balance_of :: "db \<Rightarrow> uuid \<Rightarrow> decimal" where
  "balance_of d p = (case accounts d p of None \<Rightarrow> 0 | Some a \<Rightarrow> balance a)"

subsection \<open>Sample data\<close>

text \<open>
  Two accounts as the sample data of the schema file describes them (\<^verbatim>\<open>50000.00\<close>,
  \<^verbatim>\<open>SAVINGS\<close>, the default limit of \<^verbatim>\<open>100000.00\<close>), under the keys 1 and 2, and no
  transaction yet. The currency is a three-letter code, as the column's
  \<^verbatim>\<open>VARCHAR(3)\<close> requires; the procedure never reads it.
\<close>

definition ahmed :: account where
  "ahmed = \<lparr>user_id = 1, account_number = ''SL0000000001'', balance = 5000000,
     account_type = SAVINGS, currency = ''SLS'', status = ACTIVE,
     daily_transfer_limit = 10000000, created_at = 0, updated_at = 0\<rparr>"

definition fatima :: account where
  "fatima = \<lparr>user_id = 2, account_number = ''SL0000000002'', balance = 5000000,
     account_type = SAVINGS, currency = ''SLS'', status = ACTIVE,
     daily_transfer_limit = 10000000, created_at = 0, updated_at = 0\<rparr>"

definition sample_db :: db where
  "sample_db = \<lparr>accounts = [1 \<mapsto> ahmed, 2 \<mapsto> fatima], transactions = []\<rparr>"

text \<open>The sender holds \<^verbatim>\<open>100.00\<close> and has sent nothing today.\<close>

definition poor_db :: db where
  "poor_db = \<lparr>accounts = [1 \<mapsto> ahmed\<lparr>balance := 10000\<rparr>, 2 \<mapsto> fatima], transactions = []\<rparr>"

text \<open>
  The sender holds \<^verbatim>\<open>500.00\<close> under a limit of \<^verbatim>\<open>1000.00\<close> and has a completed
  transfer of \<^verbatim>\<open>900.00\<close> on day 1 (second 90000 falls in it).
\<close>

definition spent_db :: db where
  "spent_db =
     \<lparr>accounts = [1 \<mapsto> ahmed\<lparr>balance := 50000, daily_transfer_limit := 100000\<rparr>,
                  2 \<mapsto> fatima],
      transactions =
        [\<lparr>transaction_id = 5, sender_account_id = Some 1, receiver_account_id = Some 2,
          amount = 90000, transaction_type = TRANSFER, status_tx = COMPLETED,
          description = ''rent'', reference_number = ''TXN-A'', fee_amount = 0,
          created_at_tx = 90000, completed_at = Some 90000, failure_reason = None\<rparr>]\<rparr>"

text \<open>
  The same tables after the limit has been lowered to \<^verbatim>\<open>500.00\<close>: the day's total is
  already above it.
\<close>

definition lowered_db :: db where
  "lowered_db =
     spent_db\<lparr>accounts := (accounts spent_db)
       (1 \<mapsto> ahmed\<lparr>balance := 50000, daily_transfer_limit := 50000\<rparr>)\<rparr>"

text \<open>
  A day with more in the table than the sender's completed transactions of today. The
  clock of the call reads 172799, the last second of day 1. Of the five rows only the
  first, created in the first second of day 1, counts: the second has another sender,
  the third was created in the last second of day 0, the fourth has failed and the
  fifth is still pending.
\<close>

definition busy_row :: "uuid \<Rightarrow> uuid \<Rightarrow> uuid \<Rightarrow> decimal \<Rightarrow> transaction_status
    \<Rightarrow> timestamp \<Rightarrow> transaction_row" where
  "busy_row i p q n st t =
     \<lparr>transaction_id = i, sender_account_id = Some p, receiver_account_id = Some q,
      amount = n, transaction_type = TRANSFER, status_tx = st, description = ''rent'',
      reference_number = ''TXN-'' @ replicate i CHR ''I'', fee_amount = 0,
      created_at_tx = t, completed_at = (if st = COMPLETED then Some t else None),
      failure_reason = None\<rparr>"

definition busy_db :: db where
  "busy_db =
     \<lparr>accounts = [1 \<mapsto> ahmed\<lparr>balance := 50000, daily_transfer_limit := 100000\<rparr>,
                  2 \<mapsto> fatima],
      transactions =
        [busy_row 1 1 2 90000 COMPLETED 86400,
         busy_row 2 2 1 70000 COMPLETED 86400,
         busy_row 3 1 2 60000 COMPLETED 86399,
         busy_row 4 1 2 50000 FAILED 90000,
         busy_row 5 1 2 40000 PENDING 90000]\<rparr>"

text \<open>
  Two completed transactions of \<^verbatim>\<open>6000000000000.00\<close> each by the same sender on day 1:
  each fits the column, their sum does not fit \<^verbatim>\<open>DECIMAL(15, 2)\<close>.
\<close>

definition flooded_db :: db where
  "flooded_db =
     \<lparr>accounts = [1 \<mapsto> ahmed\<lparr>balance := 50000, daily_transfer_limit := 100000\<rparr>,
                  2 \<mapsto> fatima],
      transactions =
        [busy_row 1 1 2 600000000000000 COMPLETED 86400,
         busy_row 2 1 2 600000000000000 COMPLETED 90000]\<rparr>"

section \<open>The demo implementation of \<^verbatim>\<open>js/app_demo.js\<close>\<close>

text \<open>
  The demo keeps its data in global arrays of objects and mirrors them into
  \<^verbatim>\<open>localStorage\<close>. Field names that the ledger records already use carry the suffix
  \<open>_js\<close>; \<^verbatim>\<open>user_id\<close> and \<^verbatim>\<open>created_at\<close> occur in several objects and are told
  apart by a prefix (\<open>owner_user_id_js\<close> is the \<^verbatim>\<open>user_id\<close> of an account). Numbers are
  JavaScript numbers, modelled as reals: rounding and \<^verbatim>\<open>NaN\<close> are outside the model.
  Identifiers and dates are strings.
\<close>

record demoUser =
  user_id_js :: string
  full_name :: string
  email :: string
  phone :: string
  password :: string
  kyc_status :: string
  is_admin :: bool

record demoAccount =
  account_id_js :: string
  owner_user_id_js :: string
  account_number_js :: string
  balance_slsh :: real
  balance_usd :: real
  account_type_js :: string
  status_js :: string
  created_at_js :: string

record demoTransaction =
  transaction_id_js :: string
  sender_account_id_js :: "string option"
  receiver_account_id_js :: "string option"
  amount_js :: real
  currency_js :: string
  transaction_type_js :: string
  status_tx_js :: string
  description_js :: string
  reference_number_js :: string
  created_at_tx_js :: string

record demoAlert =
  alert_id :: string
  alert_user_id :: string
  alert_type :: string
  severity :: string
  message :: string
  is_read :: bool
  alert_created_at :: string

text \<open>What \<^verbatim>\<open>saveData\<close> writes: one entry per global.\<close>

record storage =
  stored_demoUsers :: "demoUser list"
  stored_demoAccounts :: "demoAccount list"
  stored_demoTransactions :: "demoTransaction list"
  stored_demoAlerts :: "demoAlert list"
  stored_currentUser :: "demoUser option"

record demo =
  demoUsers :: "demoUser list"
  demoAccounts :: "demoAccount list"
  demoTransactions :: "demoTransaction list"
  demoAlerts :: "demoAlert list"
  currentUser :: "demoUser option"
  localStorage :: storage

text \<open>
  The values a call draws from outside: two results of \<^verbatim>\<open>generateId()\<close>, the
  nine characters cut from \<^verbatim>\<open>Math.random()\<close>, and two readings of the clock.
\<close>

record drawn =
  txId :: string
  random_chars :: string
  tx_date :: string
  new_alert_id :: string
  alert_date :: string

text \<open>
  \<^verbatim>\<open>Array.prototype.find\<close> returns the first matching object itself, and the function
  then assigns to that object's fields. The position of the object in the array stands
  for the reference.
\<close>

fun find_js :: "('a \<Rightarrow> bool) \<Rightarrow> 'a list \<Rightarrow> nat option" where
  "find_js P [] = None"
| "find_js P (x # xs) = (if P x then Some 0 else map_option Suc (find_js P xs))"

definition saveData :: "demo \<Rightarrow> demo" where
  "saveData st =
     st\<lparr>localStorage :=
          \<lparr>stored_demoUsers = demoUsers st,
           stored_demoAccounts = demoAccounts st,
           stored_demoTransactions = demoTransactions st,
           stored_demoAlerts = demoAlerts st,
           stored_currentUser = currentUser st\<rparr>\<rparr>"

text \<open>
  \<^verbatim>\<open>formatCurrency\<close> formats through the browser's \<^verbatim>\<open>Intl.NumberFormat\<close>, which is
  the parameter \<open>fmt\<close>.
\<close>

definition formatCurrency :: "(real \<Rightarrow> string) \<Rightarrow> real \<Rightarrow> string \<Rightarrow> string" where
  "formatCurrency fmt amnt cur =
     (if cur = ''USD'' then ''$'' @ fmt amnt else fmt amnt @ '' SLSH'')"

text \<open>
  \<^verbatim>\<open>transferMoney(receiverAccount, amount, description)\<close>. The result pairs the new
  globals with the toast that is shown, if any (message and type). Closing the modal,
  resetting the form and redrawing the dashboard change nothing of the data.
\<close>

definition transferMoney ::
  "(real \<Rightarrow> string) \<Rightarrow> drawn \<Rightarrow> demo \<Rightarrow> string \<Rightarrow> real \<Rightarrow> string
     \<Rightarrow> demo \<times> (string \<times> string) option" where
  "transferMoney fmt rnd st receiverAccount amnt descr =
     (case currentUser st of
        None \<Rightarrow> (st, None)
      | Some u \<Rightarrow>
          (case find_js (\<lambda>a. owner_user_id_js a = user_id_js u \<and> status_js a = ''ACTIVE'')
                  (demoAccounts st) of
             None \<Rightarrow> (st, Some (''No active account found'', ''error''))
           | Some i \<Rightarrow>
               (case find_js (\<lambda>a. account_number_js a = receiverAccount
                                    \<and> status_js a = ''ACTIVE'') (demoAccounts st) of
                  None \<Rightarrow> (st, Some (''Receiver account not found'', ''error''))
                | Some j \<Rightarrow>
                    if balance_slsh (demoAccounts st ! i) < amnt
                      then (st, Some (''Insufficient balance'', ''error''))
                    else
                      (let accs1 = (demoAccounts st)
                             [i := (demoAccounts st ! i)
                                \<lparr>balance_slsh := balance_slsh (demoAccounts st ! i) - amnt\<rparr>];
                           accs2 = accs1
                             [j := (accs1 ! j)\<lparr>balance_slsh := balance_slsh (accs1 ! j) + amnt\<rparr>];
                           tx = \<lparr>transaction_id_js = txId rnd,
                                 sender_account_id_js = Some (account_id_js (accs2 ! i)),
                                 receiver_account_id_js = Some (account_id_js (accs2 ! j)),
                                 amount_js = amnt,
                                 currency_js = ''SLSH'',
                                 transaction_type_js = ''TRANSFER'',
                                 status_tx_js = ''COMPLETED'',
                                 description_js = descr,
                                 reference_number_js = ''TXN'' @ random_chars rnd,
                                 created_at_tx_js = tx_date rnd\<rparr>;
                           alerts =
                             (if amnt > 10000
                              then demoAlerts st @
                                [\<lparr>alert_id = new_alert_id rnd,
                                  alert_user_id = user_id_js u,
                                  alert_type = ''LARGE_WITHDRAWAL'',
                                  severity = ''MEDIUM'',
                                  message = ''Large transfer of ''
                                    @ formatCurrency fmt amnt ''SLSH'' @ '' completed'',
                                  is_read = False,
                                  alert_created_at = alert_date rnd\<rparr>]
                              else demoAlerts st)
                       in (saveData
                             (st\<lparr>demoAccounts := accs2,
                                 demoTransactions := demoTransactions st @ [tx],
                                 demoAlerts := alerts\<rparr>),
                           Some (''Transfer successful! Reference: '' @ reference_number_js tx,
                                 ''success''))))))"

text \<open>
  A demo with two users and their accounts; the first user is logged in.
\<close>

definition demo_user :: "string \<Rightarrow> demoUser" where
  "demo_user uid = \<lparr>user_id_js = uid, full_name = ''Test User'', email = ''t@example.com'',
     phone = ''+252'', password = ''secret'', kyc_status = ''VERIFIED'', is_admin = False\<rparr>"

definition demo_account :: "string \<Rightarrow> string \<Rightarrow> string \<Rightarrow> demoAccount" where
  "demo_account aid uid nr = \<lparr>account_id_js = aid, owner_user_id_js = uid,
     account_number_js = nr, balance_slsh = 50000, balance_usd = 10,
     account_type_js = ''SAVINGS'', status_js = ''ACTIVE'', created_at_js = ''2025-01-01''\<rparr>"

definition sample_demo :: demo where
  "sample_demo =
     \<lparr>demoUsers = [demo_user ''u1'', demo_user ''u2''],
      demoAccounts = [demo_account ''a1'' ''u1'' ''SL1'', demo_account ''a2'' ''u2'' ''SL2''],
      demoTransactions = [],
      demoAlerts = [],
      currentUser = Some (demo_user ''u1''),
      localStorage =
        \<lparr>stored_demoUsers = [], stored_demoAccounts = [], stored_demoTransactions = [],
         stored_demoAlerts = [], stored_currentUser = None\<rparr>\<rparr>"

definition sample_drawn :: drawn where
  "sample_drawn = \<lparr>txId = ''t1'', random_chars = ''ABC123XYZ'', tx_date = ''2025-01-02'',
     new_alert_id = ''al1'', alert_date = ''2025-01-02''\<rparr>"

section \<open>Properties of \<^verbatim>\<open>transfer_money\<close>\<close>

lemmas transfer_defs =
  transfer_money_def transfer_block_def when_others_def insert_transaction_def
  update_balance_def

lemmas sample_defs =
  sample_db_def poor_db_def spent_db_def lowered_db_def busy_db_def busy_row_def
  flooded_db_def ahmed_def fatima_def daily_total_def DATE_def complete_transaction_def
  balance_of_def

text \<open>
  The outcomes of the specification correspond to the JSON objects as follows:
  \<open>SenderUnavailable\<close> is \<^verbatim>\<open>'Sender account not found or inactive'\<close>,
  \<open>ReceiverUnavailable\<close> is \<^verbatim>\<open>'Receiver account not found or inactive'\<close>,
  \<open>InsufficientFunds\<close> is \<^verbatim>\<open>'Insufficient balance'\<close> and \<open>DailyLimitExceeded\<close> is
  \<^verbatim>\<open>'Daily transfer limit exceeded'\<close>. The procedure has no other literal; every
  other failure carries \<^verbatim>\<open>SQLERRM\<close>.
\<close>

subsection \<open>Rounding\<close>

lemma floor_half_rat: "\<lfloor>1 / 2 :: rat\<rfloor> = 0"
  by (rule floor_unique) simp_all

lemma round_numeric_of_int: "round_numeric (of_int n) = n"
proof (cases "0 \<le> n")
  case True
  then have "round_numeric (of_int n) = \<lfloor>of_int n + (1 / 2 :: rat)\<rfloor>"
    by (simp add: round_numeric_def)
  also have "\<dots> = n + \<lfloor>1 / 2 :: rat\<rfloor>"
    by simp
  finally show ?thesis by (simp add: floor_half_rat)
next
  case False
  then have "round_numeric (of_int n) = - \<lfloor>of_int (- n) + (1 / 2 :: rat)\<rfloor>"
    by (simp add: round_numeric_def)
  also have "\<lfloor>of_int (- n) + (1 / 2 :: rat)\<rfloor> = - n + \<lfloor>1 / 2 :: rat\<rfloor>"
    by simp
  finally show ?thesis by (simp add: floor_half_rat)
qed

lemma round_numeric_zero: "round_numeric 0 = 0"
  using round_numeric_of_int [of 0] by simp

lemma round_numeric_numeral: "round_numeric (numeral k) = numeral k"
  using round_numeric_of_int [of "numeral k"] by simp

lemma round_numeric_nonneg: "0 \<le> q \<Longrightarrow> 0 \<le> round_numeric q"
  by (simp add: round_numeric_def)

lemma round_numeric_nonpos: "q \<le> 0 \<Longrightarrow> round_numeric q \<le> 0"
proof (cases "q = 0")
  case True
  then show ?thesis by (simp add: round_numeric_zero)
next
  case False
  assume "q \<le> 0"
  with False have "q < 0" by simp
  then have "0 \<le> \<lfloor>- q + 1 / 2\<rfloor>" by simp
  with \<open>q < 0\<close> show ?thesis by (simp add: round_numeric_def)
qed


lemma numeric_15_2_stores_round:
  "numeric_15_2 q = Inr n \<Longrightarrow> n = round_numeric q"
  by (simp add: numeric_15_2_def split: if_splits)

subsection \<open>Auxiliary facts\<close>

lemma failure_leaves_db:
  "\<not> success (snd (transfer_money now v4 d s r a ds rf))
     \<Longrightarrow> fst (transfer_money now v4 d s r a ds rf) = d"
  by (auto simp: transfer_money_def transfer_block_def when_others_def
      split: option.splits if_splits sum.splits)

text \<open>What a successful call has passed on its way, and what it returns.\<close>

lemma success_steps:
  assumes "success (snd (transfer_money now v4 d s r a ds rf))"
  shows "\<exists>x y total stored ts1 accs1 accs2.
           accounts d s = Some x \<and> status x = ACTIVE
         \<and> accounts d r = Some y \<and> status y = ACTIVE
         \<and> a \<le> of_int (balance x)
         \<and> numeric_15_2 (of_int (daily_total (transactions d) s now)) = Inr total
         \<and> of_int total + a \<le> of_int (daily_transfer_limit x)
         \<and> numeric_15_2 a = Inr stored
         \<and> insert_transaction (transactions d)
               \<lparr>transaction_id = v4, sender_account_id = Some s,
                receiver_account_id = Some r, amount = stored,
                transaction_type = TRANSFER, status_tx = PENDING, description = ds,
                reference_number = rf, fee_amount = 0, created_at_tx = now,
                completed_at = None, failure_reason = None\<rparr> = Inr ts1
         \<and> update_balance now (accounts d) s (- a) = Inr accs1
         \<and> update_balance now accs1 r a = Inr accs2
         \<and> transfer_money now v4 d s r a ds rf
             = (\<lparr>accounts = accs2, transactions = complete_transaction now ts1 v4\<rparr>,
                Success_json v4 ''Transfer completed successfully'')"
  using assms
  unfolding transfer_money_def transfer_block_def when_others_def
  by (auto split: option.splits if_splits sum.splits)

lemma success_needs_funds:
  assumes "success (snd (transfer_money now v4 d s r a ds rf))"
  shows "\<exists>x. accounts d s = Some x \<and> a \<le> of_int (balance x)"
  using success_steps [OF assms] by blast

lemma success_needs_positive_amount:
  assumes "success (snd (transfer_money now v4 d s r a ds rf))"
  shows "0 < a"
proof (rule ccontr)
  assume "\<not> 0 < a"
  then have low: "round_numeric a \<le> 0"
    by (simp add: round_numeric_nonpos)
  from success_steps [OF assms] obtain stored ts1 where
    stored: "numeric_15_2 a = Inr stored"
    and inserted: "insert_transaction (transactions d)
               \<lparr>transaction_id = v4, sender_account_id = Some s,
                receiver_account_id = Some r, amount = stored,
                transaction_type = TRANSFER, status_tx = PENDING, description = ds,
                reference_number = rf, fee_amount = 0, created_at_tx = now,
                completed_at = None, failure_reason = None\<rparr> = Inr ts1"
    by blast
  from stored low have "stored \<le> 0"
    by (auto dest: numeric_15_2_stores_round)
  with inserted show False
    by (simp add: insert_transaction_def)
qed

text \<open>
  An amount in whole hundredths is stored as it is, and a successful call between two
  different accounts moves exactly that amount.
\<close>

lemma update_balance_whole:
  "update_balance now accs p (of_int n) =
     (case accs p of
        None \<Rightarrow> Inr accs
      | Some x \<Rightarrow>
          if \<not> \<bar>balance x + n\<bar> < 10 ^ 15 then Inl numeric_value_out_of_range
          else if balance x + n < 0 then Inl (check_violation accounts_balance_check)
          else Inr (accs(p \<mapsto> x\<lparr>balance := balance x + n, updated_at := now\<rparr>)))"
proof (cases "accs p")
  case None
  then show ?thesis by (simp add: update_balance_def)
next
  case (Some x)
  have "of_int (balance x) + of_int n = (of_int (balance x + n) :: rat)"
    by simp
  then have "numeric_15_2 (of_int (balance x) + of_int n) =
      (if \<bar>balance x + n\<bar> < 10 ^ 15 then Inr (balance x + n)
       else Inl numeric_value_out_of_range)"
    unfolding numeric_15_2_def by (simp only: round_numeric_of_int)
  with Some show ?thesis
    by (simp add: update_balance_def)
qed

lemma whole_hundredths_move_exactly:
  assumes "success (snd (transfer_money now v4 d s r (of_int n) ds rf))" and "s \<noteq> r"
  shows "balance_of (fst (transfer_money now v4 d s r (of_int n) ds rf)) s
           = balance_of d s - n
       \<and> balance_of (fst (transfer_money now v4 d s r (of_int n) ds rf)) r
           = balance_of d r + n"
proof -
  from success_steps [OF assms(1)] obtain x y ts1 accs1 accs2 where
    x: "accounts d s = Some x" and y: "accounts d r = Some y"
    and debit: "update_balance now (accounts d) s (- of_int n) = Inr accs1"
    and credit: "update_balance now accs1 r (of_int n) = Inr accs2"
    and result: "transfer_money now v4 d s r (of_int n) ds rf
             = (\<lparr>accounts = accs2, transactions = complete_transaction now ts1 v4\<rparr>,
                Success_json v4 ''Transfer completed successfully'')"
    by blast
  from debit have "update_balance now (accounts d) s (of_int (- n)) = Inr accs1"
    by simp
  with x have accs1: "accs1 = (accounts d)(s \<mapsto> x\<lparr>balance := balance x + - n, updated_at := now\<rparr>)"
    unfolding update_balance_whole by (simp split: if_splits)
  with y assms(2) have "accs1 r = Some y"
    by simp
  with credit have accs2: "accs2 = accs1(r \<mapsto> y\<lparr>balance := balance y + n, updated_at := now\<rparr>)"
    unfolding update_balance_whole by (simp split: if_splits)
  from result accs1 accs2 x y assms(2) show ?thesis
    by (simp add: balance_of_def)
qed





lemma find_js_Some:
  "find_js P xs = Some i \<Longrightarrow> i < length xs \<and> P (xs ! i)"
proof (induction xs arbitrary: i)
  case Nil
  then show ?case by simp
next
  case (Cons x xs)
  then show ?case by (cases "P x") auto
qed

text \<open>
  The sample calls. The numbers are whole hundredths, so storing them changes nothing;
  the definitions below are unfolded with these facts.
\<close>

lemmas run_defs =
  transfer_defs sample_defs numeric_15_2_def round_numeric_zero round_numeric_numeral

subsection \<open>Rollback\<close>

text \<open>
  C1. Whenever a call does not report success, the tables it returns are the tables it
  was given: no row of \<^verbatim>\<open>transactions\<close> has been added or changed and no balance has
  moved.
\<close>

theorem transfer_money_rollback:
  "\<not> success (snd (transfer_money now v4 d s r a ds rf))
     \<Longrightarrow> fst (transfer_money now v4 d s r a ds rf) = d"
  by (rule failure_leaves_db)

text \<open>
  A call that gets as far as the \<^verbatim>\<open>INSERT\<close> and fails there on the reference number
  that is already stored.
\<close>

theorem transfer_money_rollback_witness:
  "\<not> success (snd (transfer_money 90500 7 spent_db 1 2 5000 ''gift'' ''TXN-A''))
   \<and> fst (transfer_money 90500 7 spent_db 1 2 5000 ''gift'' ''TXN-A'') = spent_db"
proof -
  have failed: "\<not> success (snd (transfer_money 90500 7 spent_db 1 2 5000 ''gift'' ''TXN-A''))"
    by (simp add: run_defs)
  from transfer_money_rollback [OF failed] failed show ?thesis by simp
qed

subsection \<open>Conservation\<close>

text \<open>
  C2. The claim is that a successful transfer between two different accounts takes
  exactly the amount from the sender and gives exactly the amount to the receiver, so
  that the two balances add up to what they did before. The procedure computes the
  debit and the credit from the unrounded amount and each \<^verbatim>\<open>UPDATE\<close> rounds on its
  own. On the sample tables a transfer of \<^verbatim>\<open>50.005\<close> succeeds, takes \<^verbatim>\<open>50.00\<close> from the
  sender, gives \<^verbatim>\<open>50.01\<close> to the receiver and records an amount of \<^verbatim>\<open>50.01\<close>; a
  transfer of \<^verbatim>\<open>0.005\<close> succeeds, takes nothing from the sender and gives \<^verbatim>\<open>0.01\<close> to
  the receiver.
\<close>

theorem rounding_breaks_conservation:
  "success (snd (transfer_money 100 7 sample_db 1 2 (10001 / 2) ''gift'' ''R1''))
   \<and> balance_of (fst (transfer_money 100 7 sample_db 1 2 (10001 / 2) ''gift'' ''R1'')) 1
       = balance_of sample_db 1 - 5000
   \<and> balance_of (fst (transfer_money 100 7 sample_db 1 2 (10001 / 2) ''gift'' ''R1'')) 2
       = balance_of sample_db 2 + 5001
   \<and> map amount
        (transactions (fst (transfer_money 100 7 sample_db 1 2 (10001 / 2) ''gift'' ''R1'')))
       = [5001]
   \<and> success (snd (transfer_money 100 7 sample_db 1 2 (1 / 2) ''gift'' ''R1''))
   \<and> balance_of (fst (transfer_money 100 7 sample_db 1 2 (1 / 2) ''gift'' ''R1'')) 1
       = balance_of sample_db 1
   \<and> balance_of (fst (transfer_money 100 7 sample_db 1 2 (1 / 2) ''gift'' ''R1'')) 2
       = balance_of sample_db 2 + 1"
proof -
  have rounded:
    "round_numeric (10001 / 2) = 5001"
    "round_numeric (9989999 / 2) = 4995000"
    "round_numeric (10010001 / 2) = 5005001"
    "round_numeric (1 / 2) = 1"
    "round_numeric (9999999 / 2) = 5000000"
    "round_numeric (10000001 / 2) = 5000001"
    by (simp_all add: round_numeric_def)
  show ?thesis
    by (simp add: run_defs rounded)
qed

subsection \<open>Non-negative balances\<close>

text \<open>
  C3. If every stored balance is non-negative before a call (the \<^verbatim>\<open>CHECK\<close> of the
  column), every stored balance is non-negative after it; and a call whose debit would
  take the sender below zero, or whose credit would take the receiver below zero,
  leaves the tables exactly as they were.
\<close>

theorem balances_stay_non_negative:
  assumes "\<forall>p x. accounts d p = Some x \<longrightarrow> 0 \<le> balance x"
  shows "(\<forall>p x. accounts (fst (transfer_money now v4 d s r a ds rf)) p = Some x
             \<longrightarrow> 0 \<le> balance x)
       \<and> ((\<exists>x. accounts d s = Some x \<and> of_int (balance x) - a < 0)
            \<or> (\<exists>x. accounts d r = Some x \<and> of_int (balance x) + a < 0)
           \<longrightarrow> fst (transfer_money now v4 d s r a ds rf) = d)"
proof (intro conjI impI)
  show "\<forall>p x. accounts (fst (transfer_money now v4 d s r a ds rf)) p = Some x
             \<longrightarrow> 0 \<le> balance x"
  proof (cases "success (snd (transfer_money now v4 d s r a ds rf))")
    case False
    then show ?thesis using assms by (simp add: failure_leaves_db)
  next
    case True
    from success_steps [OF True] obtain ts1 accs1 accs2 where
      debit: "update_balance now (accounts d) s (- a) = Inr accs1"
      and credit: "update_balance now accs1 r a = Inr accs2"
      and result: "transfer_money now v4 d s r a ds rf
             = (\<lparr>accounts = accs2, transactions = complete_transaction now ts1 v4\<rparr>,
                Success_json v4 ''Transfer completed successfully'')"
      by blast
    from debit assms have "\<forall>p x. accs1 p = Some x \<longrightarrow> 0 \<le> balance x"
      by (auto simp: update_balance_def split: option.splits sum.splits if_splits)
    with credit have "\<forall>p x. accs2 p = Some x \<longrightarrow> 0 \<le> balance x"
      by (auto simp: update_balance_def split: option.splits sum.splits if_splits)
    with result show ?thesis by simp
  qed
next
  assume low: "(\<exists>x. accounts d s = Some x \<and> of_int (balance x) - a < 0)
            \<or> (\<exists>x. accounts d r = Some x \<and> of_int (balance x) + a < 0)"
  have "\<not> success (snd (transfer_money now v4 d s r a ds rf))"
  proof
    assume ok: "success (snd (transfer_money now v4 d s r a ds rf))"
    then obtain x where "accounts d s = Some x" and "a \<le> of_int (balance x)"
      using success_needs_funds by blast
    moreover from ok have "0 < a"
      by (rule success_needs_positive_amount)
    moreover have "\<And>y. accounts d r = Some y \<Longrightarrow> (0::rat) \<le> of_int (balance y)"
      using assms by simp
    ultimately show False
      using low by force
  qed
  then show "fst (transfer_money now v4 d s r a ds rf) = d"
    by (rule failure_leaves_db)
qed

text \<open>
  A request above the balance changes nothing; a request within it leaves the sender
  with \<^verbatim>\<open>49950.00\<close>.
\<close>

theorem balances_stay_non_negative_witness:
  "fst (transfer_money 100 7 poor_db 1 2 15000 ''gift'' ''R1'') = poor_db
   \<and> accounts (fst (transfer_money 100 7 sample_db 1 2 5000 ''gift'' ''R1'')) 1
       = Some (ahmed\<lparr>balance := 4995000, updated_at := 100\<rparr>)
   \<and> 0 \<le> balance (ahmed\<lparr>balance := 4995000, updated_at := 100\<rparr>)"
proof -
  have poor: "\<forall>p x. accounts poor_db p = Some x \<longrightarrow> 0 \<le> balance x"
    by (simp add: sample_defs)
  have sample: "\<forall>p x. accounts sample_db p = Some x \<longrightarrow> 0 \<le> balance x"
    by (simp add: sample_defs)
  have short: "\<exists>x. accounts poor_db 1 = Some x \<and> of_int (balance x) - (15000 :: rat) < 0"
    by (simp add: sample_defs)
  have row: "accounts (fst (transfer_money 100 7 sample_db 1 2 5000 ''gift'' ''R1'')) 1
       = Some (ahmed\<lparr>balance := 4995000, updated_at := 100\<rparr>)"
    by (simp add: run_defs)
  from balances_stay_non_negative
         [of poor_db 100 7 1 2 15000 "''gift''" "''R1''", OF poor] short
  have "fst (transfer_money 100 7 poor_db 1 2 15000 ''gift'' ''R1'') = poor_db"
    by blast
  moreover
  from balances_stay_non_negative
         [of sample_db 100 7 1 2 5000 "''gift''" "''R1''", OF sample] row
  have "0 \<le> balance (ahmed\<lparr>balance := 4995000, updated_at := 100\<rparr>)"
    by blast
  ultimately show ?thesis using row by simp
qed

subsection \<open>Transfers to oneself\<close>

text \<open>
  C4. The claim is that a call whose receiver is its sender is rejected. The procedure
  compares the two ids nowhere: on the sample tables, a transfer of \<^verbatim>\<open>50.00\<close> from
  account 1 to account 1 reports success and stores a \<^verbatim>\<open>COMPLETED\<close> row whose sender
  and receiver are the same account, while the balance ends where it began.
\<close>

theorem self_transfer_completes:
  "snd (transfer_money 100 7 sample_db 1 1 5000 ''to myself'' ''R1'')
     = Success_json 7 ''Transfer completed successfully''
   \<and> transactions (fst (transfer_money 100 7 sample_db 1 1 5000 ''to myself'' ''R1''))
     = [\<lparr>transaction_id = 7, sender_account_id = Some 1, receiver_account_id = Some 1,
         amount = 5000, transaction_type = TRANSFER, status_tx = COMPLETED,
         description = ''to myself'', reference_number = ''R1'', fee_amount = 0,
         created_at_tx = 100, completed_at = Some 100, failure_reason = None\<rparr>]
   \<and> balance_of (fst (transfer_money 100 7 sample_db 1 1 5000 ''to myself'' ''R1'')) 1
     = balance_of sample_db 1"
  by (simp add: run_defs)

subsection \<open>Balance and daily limit\<close>

text \<open>
  C5. With an active sender and an active receiver, an amount above the sender's
  balance is answered with \<^verbatim>\<open>'Insufficient balance'\<close> and the tables are untouched,
  whatever the daily limit and the day's total are.
\<close>

theorem insufficient_funds_rejected:
  assumes "accounts d s = Some x" and "status x = ACTIVE"
    and "accounts d r = Some y" and "status y = ACTIVE"
    and "of_int (balance x) < a"
  shows "transfer_money now v4 d s r a ds rf
           = (d, Failure_json (Literal ''Insufficient balance''))"
  using assms by (simp add: transfer_money_def transfer_block_def)

text \<open>Balance \<^verbatim>\<open>100.00\<close>, limit \<^verbatim>\<open>100000.00\<close>, nothing sent today, request \<^verbatim>\<open>150.00\<close>.\<close>

theorem insufficient_funds_rejected_witness:
  "transfer_money 100 7 poor_db 1 2 15000 ''gift'' ''R1''
     = (poor_db, Failure_json (Literal ''Insufficient balance''))"
proof -
  have sender: "accounts poor_db 1 = Some (ahmed\<lparr>balance := 10000\<rparr>)"
    and receiver: "accounts poor_db 2 = Some fatima"
    by (simp_all add: poor_db_def)
  have active: "status (ahmed\<lparr>balance := 10000\<rparr>) = ACTIVE" "status fatima = ACTIVE"
    and short: "of_int (balance (ahmed\<lparr>balance := 10000\<rparr>)) < (15000 :: rat)"
    by (simp_all add: ahmed_def fatima_def)
  show ?thesis
    by (rule insufficient_funds_rejected [OF sender active(1) receiver active(2) short])
qed




subsection \<open>Non-positive amounts\<close>




subsection \<open>Retrying with the same reference number\<close>




subsection \<open>Errors raised by the store\<close>

text \<open>
  Every error a statement of the block raises is answered by the one handler of the
  procedure. In a single run on tables whose balances are all non-negative, the two
  balance updates never raise the violation of \<^verbatim>\<open>CHECK (balance >= 0)\<close>: the debit
  follows the balance check on the same row, and the credit adds an amount whose
  stored value the \<^verbatim>\<open>INSERT\<close> has found positive. Such a violation would need another
  transaction to change the sender's row between the check and the debit, which the
  row lock taken by \<^verbatim>\<open>FOR UPDATE\<close> excludes and which a single run cannot express.
\<close>

lemma update_balance_check_violation:
  assumes "update_balance now accs p delta = Inl (check_violation c)"
  shows "\<exists>x. accs p = Some x \<and> of_int (balance x) + delta < 0"
proof -
  from assms obtain x where x: "accs p = Some x"
    and low: "round_numeric (of_int (balance x) + delta) < 0"
    by (auto simp: update_balance_def numeric_15_2_def split: option.splits if_splits)
  from low have "\<not> 0 \<le> of_int (balance x) + delta"
    using round_numeric_nonneg [of "of_int (balance x) + delta"] by auto
  with x show ?thesis by auto
qed

lemma update_balance_keeps_non_negative:
  assumes "update_balance now accs p delta = Inr accs'"
    and "\<forall>q x. accs q = Some x \<longrightarrow> 0 \<le> balance x"
  shows "\<forall>q x. accs' q = Some x \<longrightarrow> 0 \<le> balance x"
  using assms
  by (auto simp: update_balance_def split: option.splits sum.splits if_splits)

lemma balance_check_never_raised:
  assumes "\<forall>p x. accounts d p = Some x \<longrightarrow> 0 \<le> balance x"
  shows "transfer_block now v4 d s r a ds rf \<noteq> Inl (check_violation accounts_balance_check)"
proof
  assume raised: "transfer_block now v4 d s r a ds rf
                    = Inl (check_violation accounts_balance_check)"
  then obtain x stored where x: "accounts d s = Some x"
    and funds: "\<not> of_int (balance x) < a"
    and stored: "numeric_15_2 a = Inr stored" and positive: "\<not> stored \<le> 0"
    and updates: "update_balance now (accounts d) s (- a)
                    = Inl (check_violation accounts_balance_check)
                  \<or> (\<exists>accs1. update_balance now (accounts d) s (- a) = Inr accs1
                        \<and> update_balance now accs1 r a
                            = Inl (check_violation accounts_balance_check))"
    unfolding transfer_block_def
    by (auto simp: insert_transaction_def numeric_15_2_def
        split: option.splits if_splits sum.splits)
  from stored positive have "0 < round_numeric a"
    by (auto dest: numeric_15_2_stores_round)
  then have amount: "0 < a"
    using round_numeric_nonpos [of a] by (cases "0 < a") auto
  from updates show False
  proof
    assume "update_balance now (accounts d) s (- a)
              = Inl (check_violation accounts_balance_check)"
    from update_balance_check_violation [OF this] x funds show False
      by auto
  next
    assume "\<exists>accs1. update_balance now (accounts d) s (- a) = Inr accs1
              \<and> update_balance now accs1 r a = Inl (check_violation accounts_balance_check)"
    then obtain accs1 where debit: "update_balance now (accounts d) s (- a) = Inr accs1"
      and credit: "update_balance now accs1 r a = Inl (check_violation accounts_balance_check)"
      by blast
    from update_balance_keeps_non_negative [OF debit assms]
    have "\<forall>q y. accs1 q = Some y \<longrightarrow> 0 \<le> balance y" .
    moreover from update_balance_check_violation [OF credit]
    obtain y where "accs1 r = Some y" and "of_int (balance y) + a < 0"
      by blast
    ultimately show False
      using amount by (auto simp: not_less dest!: spec [of _ r])
  qed
qed

section \<open>Properties of the demo's \<^verbatim>\<open>transferMoney\<close>\<close>

text \<open>
  C10. With a user logged in who has an active account, a receiver number that
  resolves to an active account, and an amount not above the sender's SLSH balance,
  the demo completes the transfer: it shows the success toast, appends one transaction
  with status \<^verbatim>\<open>COMPLETED\<close>, moves the amount between the two SLSH balances and leaves
  every USD balance alone. Nothing is assumed about the sign of the amount, about
  earlier transactions, or about sender and receiver being different accounts.
\<close>

theorem demo_transfer_completes:
  assumes "currentUser st = Some u"
    and "find_js (\<lambda>acc. owner_user_id_js acc = user_id_js u \<and> status_js acc = ''ACTIVE'')
           (demoAccounts st) = Some i"
    and "find_js (\<lambda>acc. account_number_js acc = receiverAccount \<and> status_js acc = ''ACTIVE'')
           (demoAccounts st) = Some j"
    and "amnt \<le> balance_slsh (demoAccounts st ! i)"
    and "transferMoney fmt rnd st receiverAccount amnt descr = (st', toast)"
  shows "toast = Some (''Transfer successful! Reference: TXN'' @ random_chars rnd, ''success'')
       \<and> demoTransactions st' = demoTransactions st @
            [\<lparr>transaction_id_js = txId rnd,
              sender_account_id_js = Some (account_id_js (demoAccounts st ! i)),
              receiver_account_id_js = Some (account_id_js (demoAccounts st ! j)),
              amount_js = amnt, currency_js = ''SLSH'', transaction_type_js = ''TRANSFER'',
              status_tx_js = ''COMPLETED'', description_js = descr,
              reference_number_js = ''TXN'' @ random_chars rnd,
              created_at_tx_js = tx_date rnd\<rparr>]
       \<and> length (demoAccounts st') = length (demoAccounts st)
       \<and> map balance_usd (demoAccounts st') = map balance_usd (demoAccounts st)
       \<and> (\<forall>k < length (demoAccounts st).
            balance_slsh (demoAccounts st' ! k) =
              balance_slsh (demoAccounts st ! k)
                - (if k = i then amnt else 0) + (if k = j then amnt else 0))"
proof -
  from assms(2) have i: "i < length (demoAccounts st)" by (simp add: find_js_Some)
  from assms(3) have j: "j < length (demoAccounts st)" by (simp add: find_js_Some)
  from assms(4) have enough: "\<not> balance_slsh (demoAccounts st ! i) < amnt" by simp
  let ?a1 = "(demoAccounts st)
      [i := (demoAccounts st ! i)\<lparr>balance_slsh := balance_slsh (demoAccounts st ! i) - amnt\<rparr>]"
  let ?a2 = "?a1[j := (?a1 ! j)\<lparr>balance_slsh := balance_slsh (?a1 ! j) + amnt\<rparr>]"
  from assms(1,2,3,5) enough
  have accs: "demoAccounts st' = ?a2"
    and txs: "demoTransactions st' = demoTransactions st @
            [\<lparr>transaction_id_js = txId rnd,
              sender_account_id_js = Some (account_id_js (?a2 ! i)),
              receiver_account_id_js = Some (account_id_js (?a2 ! j)),
              amount_js = amnt, currency_js = ''SLSH'', transaction_type_js = ''TRANSFER'',
              status_tx_js = ''COMPLETED'', description_js = descr,
              reference_number_js = ''TXN'' @ random_chars rnd,
              created_at_tx_js = tx_date rnd\<rparr>]"
    and toast: "toast = Some (''Transfer successful! Reference: TXN'' @ random_chars rnd,
                              ''success'')"
    by (auto simp: transferMoney_def saveData_def Let_def)
  have ids: "account_id_js (?a2 ! k) = account_id_js (demoAccounts st ! k)"
    if "k < length (demoAccounts st)" for k
    using that i j by (auto simp: nth_list_update)
  have usd: "map balance_usd ?a2 = map balance_usd (demoAccounts st)"
    using i j by (simp add: list_eq_iff_nth_eq nth_list_update)
  have slsh: "balance_slsh (?a2 ! k) =
              balance_slsh (demoAccounts st ! k)
                - (if k = i then amnt else 0) + (if k = j then amnt else 0)"
    if "k < length (demoAccounts st)" for k
    using that i j by (auto simp: nth_list_update)
  from accs txs toast ids [OF i] ids [OF j] usd slsh show ?thesis
    by simp
qed

text \<open>
  The logged-in user sends \<^verbatim>\<open>100\<close> to the second account; and the same user sends
  \<^verbatim>\<open>-100\<close> to the own account number, which completes as well.
\<close>

theorem demo_transfer_completes_witness:
  "transferMoney (\<lambda>x. ''-100.00'') sample_drawn sample_demo ''SL1'' (- 100) ''to myself''
     = (saveData (sample_demo\<lparr>demoTransactions :=
          [\<lparr>transaction_id_js = ''t1'', sender_account_id_js = Some ''a1'',
            receiver_account_id_js = Some ''a1'', amount_js = - 100, currency_js = ''SLSH'',
            transaction_type_js = ''TRANSFER'', status_tx_js = ''COMPLETED'',
            description_js = ''to myself'', reference_number_js = ''TXNABC123XYZ'',
            created_at_tx_js = ''2025-01-02''\<rparr>]\<rparr>),
        Some (''Transfer successful! Reference: TXNABC123XYZ'', ''success''))
   \<and> snd (transferMoney (\<lambda>x. ''100.00'') sample_drawn sample_demo ''SL2'' 100 ''gift'')
     = Some (''Transfer successful! Reference: TXNABC123XYZ'', ''success'')
   \<and> map balance_usd
        (demoAccounts
          (fst (transferMoney (\<lambda>x. ''100.00'') sample_drawn sample_demo ''SL2'' 100 ''gift'')))
     = [10, 10]
   \<and> balance_slsh
        (demoAccounts
          (fst (transferMoney (\<lambda>x. ''100.00'') sample_drawn sample_demo ''SL2'' 100 ''gift''))
         ! 0)
     = 49900
   \<and> balance_slsh
        (demoAccounts
          (fst (transferMoney (\<lambda>x. ''100.00'') sample_drawn sample_demo ''SL2'' 100 ''gift''))
         ! 1)
     = 50100"
proof -
  let ?call = "transferMoney (\<lambda>x. ''100.00'') sample_drawn sample_demo ''SL2'' 100 ''gift''"
  have user: "currentUser sample_demo = Some (demo_user ''u1'')"
    by (simp add: sample_demo_def)
  have from_acc: "find_js (\<lambda>acc. owner_user_id_js acc = user_id_js (demo_user ''u1'')
                     \<and> status_js acc = ''ACTIVE'') (demoAccounts sample_demo) = Some 0"
    by (simp add: sample_demo_def demo_user_def demo_account_def)
  have to_acc: "find_js (\<lambda>acc. account_number_js acc = ''SL2'' \<and> status_js acc = ''ACTIVE'')
                  (demoAccounts sample_demo) = Some 1"
    by (simp add: sample_demo_def demo_user_def demo_account_def)
  have enough: "100 \<le> balance_slsh (demoAccounts sample_demo ! 0)"
    by (simp add: sample_demo_def demo_account_def)
  have res: "?call = (fst ?call, snd ?call)"
    by simp
  have before: "map balance_usd (demoAccounts sample_demo) = [10, 10]"
    "balance_slsh (demoAccounts sample_demo ! 0) = 50000"
    "balance_slsh (demoAccounts sample_demo ! 1) = 50000"
    "length (demoAccounts sample_demo) = 2"
    by (simp_all add: sample_demo_def demo_account_def)
  have own: "transferMoney (\<lambda>x. ''-100.00'') sample_drawn sample_demo ''SL1'' (- 100)
               ''to myself''
     = (saveData (sample_demo\<lparr>demoTransactions :=
          [\<lparr>transaction_id_js = ''t1'', sender_account_id_js = Some ''a1'',
            receiver_account_id_js = Some ''a1'', amount_js = - 100, currency_js = ''SLSH'',
            transaction_type_js = ''TRANSFER'', status_tx_js = ''COMPLETED'',
            description_js = ''to myself'', reference_number_js = ''TXNABC123XYZ'',
            created_at_tx_js = ''2025-01-02''\<rparr>]\<rparr>),
        Some (''Transfer successful! Reference: TXNABC123XYZ'', ''success''))"
    by (simp add: transferMoney_def sample_demo_def sample_drawn_def demo_user_def
        demo_account_def saveData_def Let_def)
  from demo_transfer_completes [OF user from_acc to_acc enough res] before own
  show ?thesis
    by (simp add: sample_drawn_def)
qed

end
